theory Spec2Isabelle
  imports Main "HOL-Library.Char_ord" "HOL-Library.List_Lexorder"
begin

section \<open>Data model\<close>

text \<open>
  Values produced by \<^verbatim>\<open>yaml.safe_load\<close> and by \<^verbatim>\<open>response.json()\<close>: the Python
  objects a parsed document consists of. Dictionaries are association lists with string
  keys; floating point numbers are left out.
\<close>

datatype pyval =
    PNone
  | PBool bool
  | PInt int
  | PStr string
  | PList "pyval list"
  | PDict "(string \<times> pyval) list"

text \<open>Python truthiness, as used by \<^verbatim>\<open>x or y\<close> and \<^verbatim>\<open>if x:\<close>.\<close>

fun truthy :: "pyval \<Rightarrow> bool" where
  "truthy PNone = False"
| "truthy (PBool b) = b"
| "truthy (PInt i) = (i \<noteq> 0)"
| "truthy (PStr s) = (s \<noteq> [])"
| "truthy (PList xs) = (xs \<noteq> [])"
| "truthy (PDict kv) = (kv \<noteq> [])"

text \<open>Truthiness of an \<^verbatim>\<open>Optional[str]\<close>: neither \<^verbatim>\<open>None\<close> nor the empty string.\<close>

fun truthy_str :: "string option \<Rightarrow> bool" where
  "truthy_str None = False"
| "truthy_str (Some s) = (s \<noteq> [])"

text \<open>\<^verbatim>\<open>a or b\<close> on optional strings.\<close>

definition py_or :: "string option \<Rightarrow> string option \<Rightarrow> string option" where
  "py_or a b = (if truthy_str a then a else b)"

text \<open>\<^verbatim>\<open>ResolutionResult\<close> of \<^verbatim>\<open>types/base_types.py\<close>.\<close>

record resolution_result =
  res_name :: string
  res_version :: string
  res_path :: string
  res_source :: string
  res_metadata :: "(string \<times> pyval) list"

text \<open>
  The exceptions of \<^verbatim>\<open>errors/forge_error.py\<close> that the resolution engine raises, each
  with the attributes the engine sets: the not-found errors carry the name and the
  \<^verbatim>\<open>details\<close> entries \<^verbatim>\<open>version\<close> and \<^verbatim>\<open>searched\<close>; \<^verbatim>\<open>ResolutionError\<close> carries
  \<^verbatim>\<open>name\<close> and \<^verbatim>\<open>details["path"]\<close>; \<^verbatim>\<open>NetworkError\<close> carries \<^verbatim>\<open>status_code\<close> and
  \<^verbatim>\<open>details["url"]\<close>. \<open>OtherError\<close> is any exception that is not a \<^verbatim>\<open>ForgeError\<close>
  (\<^verbatim>\<open>KeyError\<close>, \<^verbatim>\<open>TypeError\<close>, \<^verbatim>\<open>OSError\<close>, a JSON or validation failure), named by its
  class.
\<close>

datatype error =
    AgentNotFoundError string "string option" "string list"
  | ToolNotFoundError string "string option" "string list"
  | ResolutionError string string
  | NetworkError "int option" "string option"
  | OtherError string

section \<open>The operating system as the resolvers see it\<close>

text \<open>
  The \<^verbatim>\<open>pathlib\<close> operations and the file reads the filesystem resolvers perform, over a
  path type \<open>'p\<close>. \<open>os_iterdir\<close> raises (\<open>Inl\<close>, the exception's class) on a path that is
  not a readable directory; \<open>os_load_yaml\<close> is \<^verbatim>\<open>open\<close> followed by \<^verbatim>\<open>yaml.safe_load\<close>
  and raises on a file that cannot be opened or parsed.
\<close>

record 'p os =
  os_Path :: "string \<Rightarrow> 'p"
  os_joinpath :: "'p \<Rightarrow> string \<Rightarrow> 'p"
  os_name :: "'p \<Rightarrow> string"
  os_parent :: "'p \<Rightarrow> 'p"
  os_str :: "'p \<Rightarrow> string"
  os_home :: "'p"
  os_exists :: "'p \<Rightarrow> bool"
  os_is_dir :: "'p \<Rightarrow> bool"
  os_iterdir :: "'p \<Rightarrow> string + 'p list"
  os_load_yaml :: "'p \<Rightarrow> string + pyval"

section \<open>Base resolver\<close>

text \<open>\<^verbatim>\<open>BaseResolver.__init__\<close>: an empty or missing path string gives no registry path.\<close>

definition base_init :: "'p os \<Rightarrow> string option \<Rightarrow> 'p option" where
  "base_init e registry_path =
     (if truthy_str registry_path then Some (os_Path e (the registry_path)) else None)"

text \<open>\<^verbatim>\<open>str.split("@", 1)\<close> on a string that contains the separator.\<close>

definition split_at_first :: "char \<Rightarrow> string \<Rightarrow> string \<times> string" where
  "split_at_first c s = (takeWhile (\<lambda>x. x \<noteq> c) s, tl (dropWhile (\<lambda>x. x \<noteq> c) s))"

text \<open>\<^verbatim>\<open>BaseResolver._parse_name_version\<close>.\<close>

definition parse_name_version :: "string \<Rightarrow> string \<times> string option" where
  "parse_name_version name =
     (if CHR ''@'' \<in> set name
      then (let parts = split_at_first CHR ''@'' name in (fst parts, Some (snd parts)))
      else (name, None))"

text \<open>\<^verbatim>\<open>BaseResolver._match_version\<close>.\<close>

definition match_version :: "string \<Rightarrow> string option \<Rightarrow> bool" where
  "match_version available requested =
     (if \<not> truthy_str requested then True else available = the requested)"

section \<open>Local resolver\<close>

text \<open>\<^verbatim>\<open>LocalResolver.__init__\<close>.\<close>

definition local_init :: "'p os \<Rightarrow> string option \<Rightarrow> 'p option" where
  "local_init e registry_path =
     base_init e (Some (case registry_path of None \<Rightarrow> ''./.forge'' | Some s \<Rightarrow> s))"

text \<open>
  \<^verbatim>\<open>LocalResolver._create_result\<close>. Everything inside the \<^verbatim>\<open>try\<close> that raises (opening
  or parsing the file, or the validation of a \<^verbatim>\<open>metadata\<close> that is not a dictionary) ends
  in \<^verbatim>\<open>ResolutionError\<close> with the name and the path of the document.
\<close>

definition create_result :: "'p os \<Rightarrow> string \<Rightarrow> string \<Rightarrow> 'p \<Rightarrow> error + resolution_result" where
  "create_result e name version definition_path =
     (case os_load_yaml e definition_path of
        Inl exn \<Rightarrow> Inl (ResolutionError name (os_str e definition_path))
      | Inr definition \<Rightarrow>
          (case (if truthy definition then definition else PDict []) of
             PDict md \<Rightarrow>
               Inr \<lparr> res_name = name, res_version = version,
                     res_path = os_str e (os_parent e definition_path),
                     res_source = ''local'', res_metadata = md \<rparr>
           | _ \<Rightarrow> Inl (ResolutionError name (os_str e definition_path))))"

text \<open>\<^verbatim>\<open>list.sort(reverse=True)\<close> on strings: descending in the lexical order.\<close>

definition sort_reverse :: "string list \<Rightarrow> string list" where
  "sort_reverse xs = rev (sort xs)"

text \<open>\<^verbatim>\<open>LocalResolver._find_version\<close>.\<close>

definition find_version ::
  "'p os \<Rightarrow> 'p \<Rightarrow> string \<Rightarrow> string option \<Rightarrow> error + resolution_result option" where
  "find_version e base_dir name version =
     (if \<not> os_exists e base_dir then Inr None
      else if truthy_str version then
        (let version_file = os_joinpath e (os_joinpath e base_dir (the version)) ''definition.yaml''
         in if os_exists e version_file
            then map_sum id Some (create_result e name (the version) version_file)
            else Inr None)
      else
        (case os_iterdir e base_dir of
           Inl exn \<Rightarrow> Inl (OtherError exn)
         | Inr ds \<Rightarrow>
             (case sort_reverse (map (os_name e) (filter (os_is_dir e) ds)) of
                [] \<Rightarrow> Inr None
              | latest_version # _ \<Rightarrow>
                  (let version_file =
                         os_joinpath e (os_joinpath e base_dir latest_version) ''definition.yaml''
                   in if os_exists e version_file
                      then map_sum id Some (create_result e name latest_version version_file)
                      else Inr None))))"

text \<open>The loop of \<^verbatim>\<open>LocalResolver.resolve\<close> over the kind buckets.\<close>

fun resolve_buckets ::
  "'p os \<Rightarrow> 'p \<Rightarrow> string \<Rightarrow> string option \<Rightarrow> string list \<Rightarrow> error + resolution_result option" where
  "resolve_buckets e root parsed_name version [] = Inr None"
| "resolve_buckets e root parsed_name version (item_type # rest) =
     (let type_dir = os_joinpath e (os_joinpath e root item_type) parsed_name
      in if \<not> os_exists e type_dir then resolve_buckets e root parsed_name version rest
         else (case find_version e type_dir parsed_name version of
                 Inl err \<Rightarrow> Inl err
               | Inr (Some result) \<Rightarrow> Inr (Some result)
               | Inr None \<Rightarrow> resolve_buckets e root parsed_name version rest))"

text \<open>\<^verbatim>\<open>LocalResolver.resolve\<close>, on the resolver's \<^verbatim>\<open>registry_path\<close>.\<close>

definition local_resolve ::
  "'p os \<Rightarrow> 'p option \<Rightarrow> string \<Rightarrow> string option \<Rightarrow> error + resolution_result option" where
  "local_resolve e registry_path name version =
     (case registry_path of
        None \<Rightarrow> Inr None
      | Some root \<Rightarrow>
          if \<not> os_exists e root then Inr None
          else (let (parsed_name, parsed_version) = parse_name_version name;
                    version = py_or version parsed_version
                in resolve_buckets e root parsed_name version [''agents'', ''tools'']))"

text \<open>
  \<^verbatim>\<open>LocalResolver.list_all\<close>: the innermost loop over the entries of one name directory,
  appending to \<open>results\<close>.
\<close>

fun list_versions ::
  "'p os \<Rightarrow> string \<Rightarrow> 'p list \<Rightarrow> resolution_result list \<Rightarrow> error + resolution_result list" where
  "list_versions e name [] results = Inr results"
| "list_versions e name (version_dir # rest) results =
     (if \<not> os_is_dir e version_dir then list_versions e name rest results
      else (let version = os_name e version_dir;
                definition_path = os_joinpath e version_dir ''definition.yaml''
            in if os_exists e definition_path
               then (case create_result e name version definition_path of
                       Inl err \<Rightarrow> Inl err
                     | Inr result \<Rightarrow> list_versions e name rest (results @ [result]))
               else list_versions e name rest results))"

text \<open>The loop over the name directories of one kind bucket.\<close>

fun list_names ::
  "'p os \<Rightarrow> 'p list \<Rightarrow> resolution_result list \<Rightarrow> error + resolution_result list" where
  "list_names e [] results = Inr results"
| "list_names e (name_dir # rest) results =
     (if \<not> os_is_dir e name_dir then list_names e rest results
      else (case os_iterdir e name_dir of
              Inl exn \<Rightarrow> Inl (OtherError exn)
            | Inr version_dirs \<Rightarrow>
                (case list_versions e (os_name e name_dir) version_dirs results of
                   Inl err \<Rightarrow> Inl err
                 | Inr results' \<Rightarrow> list_names e rest results')))"

text \<open>The outer loop over the kind buckets.\<close>

fun list_buckets ::
  "'p os \<Rightarrow> 'p \<Rightarrow> string list \<Rightarrow> resolution_result list \<Rightarrow> error + resolution_result list" where
  "list_buckets e root [] results = Inr results"
| "list_buckets e root (item_type # rest) results =
     (let type_dir = os_joinpath e root item_type
      in if \<not> os_exists e type_dir then list_buckets e root rest results
         else (case os_iterdir e type_dir of
                 Inl exn \<Rightarrow> Inl (OtherError exn)
               | Inr name_dirs \<Rightarrow>
                   (case list_names e name_dirs results of
                      Inl err \<Rightarrow> Inl err
                    | Inr results' \<Rightarrow> list_buckets e root rest results')))"

definition local_list_all :: "'p os \<Rightarrow> 'p option \<Rightarrow> error + resolution_result list" where
  "local_list_all e registry_path =
     (case registry_path of
        None \<Rightarrow> Inr []
      | Some root \<Rightarrow>
          if \<not> os_exists e root then Inr []
          else list_buckets e root [''agents'', ''tools''] [])"

section \<open>Global resolver\<close>

text \<open>\<^verbatim>\<open>GlobalResolver.__init__\<close>.\<close>

definition global_init :: "'p os \<Rightarrow> string option \<Rightarrow> 'p option" where
  "global_init e registry_path =
     local_init e
       (Some (case registry_path of
                None \<Rightarrow> os_str e (os_joinpath e (os_home e) ''.forge'')
              | Some s \<Rightarrow> s))"

text \<open>\<^verbatim>\<open>GlobalResolver.resolve\<close>: the inherited resolve, then the source is set.\<close>

definition global_resolve ::
  "'p os \<Rightarrow> 'p option \<Rightarrow> string \<Rightarrow> string option \<Rightarrow> error + resolution_result option" where
  "global_resolve e registry_path name version =
     (case local_resolve e registry_path name version of
        Inl err \<Rightarrow> Inl err
      | Inr None \<Rightarrow> Inr None
      | Inr (Some result) \<Rightarrow> Inr (Some (result\<lparr>res_source := ''global''\<rparr>)))"

text \<open>
  \<^verbatim>\<open>GlobalResolver\<close> does not define \<^verbatim>\<open>list_all\<close>: it inherits
  \<^verbatim>\<open>LocalResolver.list_all\<close>.
\<close>

definition global_list_all :: "'p os \<Rightarrow> 'p option \<Rightarrow> error + resolution_result list" where
  "global_list_all e registry_path = local_list_all e registry_path"

section \<open>Remote resolver\<close>

text \<open>
  What \<^verbatim>\<open>self.client.get(endpoint, params=params)\<close> can do: raise an \<^verbatim>\<open>httpx.HTTPError\<close>
  (a transport failure), raise another exception, or return a response with a status code
  and a body; the body is the value \<^verbatim>\<open>response.json()\<close> returns, or \<open>None\<close> when
  \<^verbatim>\<open>response.json()\<close> raises because the body is not JSON.
\<close>

datatype http_outcome =
    HTTPError string
  | ClientFailure string
  | Response int "pyval option"

type_synonym http_client = "string \<Rightarrow> (string \<times> string) list \<Rightarrow> http_outcome"

text \<open>\<^verbatim>\<open>RemoteResolver.__init__\<close>: the registry URL, with its default.\<close>

definition remote_init :: "string option \<Rightarrow> string" where
  "remote_init registry_url =
     (if truthy_str registry_url then the registry_url else ''https://registry.fractary.com'')"

text \<open>\<^verbatim>\<open>data[key]\<close> on a parsed JSON value.\<close>

fun subscript :: "pyval \<Rightarrow> string \<Rightarrow> error + pyval" where
  "subscript (PDict kv) key =
     (case map_of kv key of None \<Rightarrow> Inl (OtherError ''KeyError'') | Some v \<Rightarrow> Inr v)"
| "subscript _ key = Inl (OtherError ''TypeError'')"

text \<open>\<^verbatim>\<open>data.get(key, default)\<close>; only a dictionary has the method.\<close>

fun dict_get :: "pyval \<Rightarrow> string \<Rightarrow> pyval \<Rightarrow> error + pyval" where
  "dict_get (PDict kv) key dflt =
     (case map_of kv key of None \<Rightarrow> Inr dflt | Some v \<Rightarrow> Inr v)"
| "dict_get _ key dflt = Inl (OtherError ''AttributeError'')"

text \<open>
  The construction of a \<^verbatim>\<open>ResolutionResult\<close> with source \<^verbatim>\<open>remote\<close> from one JSON
  value, as in \<^verbatim>\<open>RemoteResolver.resolve\<close> and in the comprehension of
  \<^verbatim>\<open>RemoteResolver.list_all\<close>: the four lookups in order, then the model's validation of
  the field types (strings for name, version and path, a dictionary for metadata).
\<close>

definition remote_result :: "pyval \<Rightarrow> error + resolution_result" where
  "remote_result data =
     (case subscript data ''name'' of
        Inl err \<Rightarrow> Inl err
      | Inr n \<Rightarrow>
     (case subscript data ''version'' of
        Inl err \<Rightarrow> Inl err
      | Inr v \<Rightarrow>
     (case dict_get data ''path'' (PStr []) of
        Inl err \<Rightarrow> Inl err
      | Inr p \<Rightarrow>
     (case dict_get data ''metadata'' (PDict []) of
        Inl err \<Rightarrow> Inl err
      | Inr m \<Rightarrow>
     (case (n, v, p, m) of
        (PStr name, PStr version, PStr path, PDict md) \<Rightarrow>
          Inr \<lparr> res_name = name, res_version = version, res_path = path,
                res_source = ''remote'', res_metadata = md \<rparr>
      | _ \<Rightarrow> Inl (OtherError ''ValidationError''))))))"

text \<open>
  \<^verbatim>\<open>RemoteResolver.resolve\<close>. Only \<^verbatim>\<open>httpx.HTTPError\<close> is caught and turned into a
  \<^verbatim>\<open>NetworkError\<close> with the URL; the \<^verbatim>\<open>NetworkError\<close> raised for a status other than
  200 and 404 and every other exception leave the method as they are.
\<close>

definition remote_resolve ::
  "http_client \<Rightarrow> string \<Rightarrow> string \<Rightarrow> string option \<Rightarrow> error + resolution_result option" where
  "remote_resolve client registry_url name version =
     (let (parsed_name, parsed_version) = parse_name_version name;
          version = py_or version parsed_version;
          endpoint = registry_url @ ''/api/v1/resolve'';
          params = [(''name'', parsed_name)] @
                   (if truthy_str version then [(''version'', the version)] else [])
      in case client endpoint params of
           HTTPError exn \<Rightarrow> Inl (NetworkError None (Some registry_url))
         | ClientFailure exn \<Rightarrow> Inl (OtherError exn)
         | Response status_code body \<Rightarrow>
             if status_code = 404 then Inr None
             else if status_code \<noteq> 200 then Inl (NetworkError (Some status_code) None)
             else (case body of
                     None \<Rightarrow> Inl (OtherError ''JSONDecodeError'')
                   | Some data \<Rightarrow> map_sum id Some (remote_result data)))"

text \<open>The list comprehension of \<^verbatim>\<open>RemoteResolver.list_all\<close>.\<close>

fun remote_items :: "pyval list \<Rightarrow> error + resolution_result list" where
  "remote_items [] = Inr []"
| "remote_items (item # rest) =
     (case remote_result item of
        Inl err \<Rightarrow> Inl err
      | Inr r \<Rightarrow> (case remote_items rest of Inl err \<Rightarrow> Inl err | Inr rs \<Rightarrow> Inr (r # rs)))"

text \<open>
  \<^verbatim>\<open>RemoteResolver.list_all\<close>. Iterating over \<^verbatim>\<open>data.get("items", [])\<close> walks the
  elements of a list, the keys of a dictionary and the characters of a string, and raises
  on anything else.
\<close>

definition remote_list_all :: "http_client \<Rightarrow> string \<Rightarrow> error + resolution_result list" where
  "remote_list_all client registry_url =
     (case client (registry_url @ ''/api/v1/list'') [] of
        HTTPError exn \<Rightarrow> Inl (NetworkError None (Some registry_url))
      | ClientFailure exn \<Rightarrow> Inl (OtherError exn)
      | Response status_code body \<Rightarrow>
          if status_code \<noteq> 200 then Inl (NetworkError (Some status_code) None)
          else (case body of
                  None \<Rightarrow> Inl (OtherError ''JSONDecodeError'')
                | Some data \<Rightarrow>
                    (case dict_get data ''items'' (PList []) of
                       Inl err \<Rightarrow> Inl err
                     | Inr (PList items) \<Rightarrow> remote_items items
                     | Inr (PDict kv) \<Rightarrow> remote_items (map (\<lambda>(k, v). PStr k) kv)
                     | Inr (PStr s) \<Rightarrow> remote_items (map (\<lambda>c. PStr [c]) s)
                     | Inr _ \<Rightarrow> Inl (OtherError ''TypeError''))))"

section \<open>Registries\<close>

text \<open>\<^verbatim>\<open>AgentConfig\<close> and \<^verbatim>\<open>ToolConfig\<close> of \<^verbatim>\<open>types/base_types.py\<close>.\<close>

record agent_config =
  local_registry_path :: "string option"
  global_registry_path :: "string option"
  remote_registry_url :: "string option"
  cache_enabled :: bool
  cache_ttl :: int
  auto_install :: bool
  strict_validation :: bool

record tool_config =
  tool_local_registry_path :: "string option"
  tool_global_registry_path :: "string option"
  tool_remote_registry_url :: "string option"
  tool_cache_enabled :: bool
  tool_cache_ttl :: int
  tool_timeout :: int

text \<open>
  The three tiers. A registry operation is modelled with the list of the resolvers it
  called, in call order, next to its outcome.
\<close>

datatype tier = Local | Global | Remote

fun tier_name :: "tier \<Rightarrow> string" where
  "tier_name Local = ''local''"
| "tier_name Global = ''global''"
| "tier_name Remote = ''remote''"

text \<open>
  \<^verbatim>\<open>AgentRegistry\<close>: the configuration and the three resolvers built by \<^verbatim>\<open>__init__\<close>
  (each filesystem resolver is its \<^verbatim>\<open>registry_path\<close>, the remote resolver its URL).
\<close>

record 'p agent_registry =
  config :: agent_config
  local_resolver :: "'p option"
  global_resolver :: "'p option"
  remote_resolver :: string

definition AgentRegistry :: "'p os \<Rightarrow> agent_config \<Rightarrow> 'p agent_registry" where
  "AgentRegistry e cfg =
     \<lparr> config = cfg,
       local_resolver = local_init e (local_registry_path cfg),
       global_resolver = global_init e (global_registry_path cfg),
       remote_resolver = remote_init (remote_registry_url cfg) \<rparr>"

text \<open>\<^verbatim>\<open>AgentRegistry.agent_resolve\<close> (the parameter \<^verbatim>\<open>prefer_local\<close> is never read).\<close>

definition agent_resolve ::
  "'p os \<Rightarrow> http_client \<Rightarrow> 'p agent_registry \<Rightarrow> string \<Rightarrow> string option
     \<Rightarrow> tier list \<times> (error + resolution_result)" where
  "agent_resolve e client self name version =
     (case local_resolve e (local_resolver self) name version of
        Inl err \<Rightarrow> ([Local], Inl err)
      | Inr (Some result) \<Rightarrow> ([Local], Inr result)
      | Inr None \<Rightarrow>
     (case global_resolve e (global_resolver self) name version of
        Inl err \<Rightarrow> ([Local, Global], Inl err)
      | Inr (Some result) \<Rightarrow> ([Local, Global], Inr result)
      | Inr None \<Rightarrow>
          if truthy_str (remote_registry_url (config self)) then
            (case remote_resolve client (remote_resolver self) name version of
               Inr (Some result) \<Rightarrow> ([Local, Global, Remote], Inr result)
             | Inr None \<Rightarrow>
                 ([Local, Global, Remote],
                  Inl (AgentNotFoundError name version [''local'', ''global'', ''remote'']))
             | Inl exn \<Rightarrow>
                 ([Local, Global, Remote],
                  Inl (AgentNotFoundError name version [''local'', ''global'', ''remote''])))
          else
            ([Local, Global],
             Inl (AgentNotFoundError name version [''local'', ''global'', ''remote'']))))"

text \<open>\<^verbatim>\<open>AgentRegistry.agent_list\<close>.\<close>

definition agent_list ::
  "'p os \<Rightarrow> http_client \<Rightarrow> 'p agent_registry \<Rightarrow> string option
     \<Rightarrow> error + resolution_result list" where
  "agent_list e client self source =
     (case (if source = None \<or> source = Some ''local''
            then local_list_all e (local_resolver self) else Inr []) of
        Inl err \<Rightarrow> Inl err
      | Inr results1 \<Rightarrow>
     (case (if source = None \<or> source = Some ''global''
            then global_list_all e (global_resolver self) else Inr []) of
        Inl err \<Rightarrow> Inl err
      | Inr results2 \<Rightarrow>
          if (source = None \<or> source = Some ''remote'')
             \<and> truthy_str (remote_registry_url (config self))
          then (case remote_list_all client (remote_resolver self) of
                  Inl exn \<Rightarrow> Inr (results1 @ results2)
                | Inr results3 \<Rightarrow> Inr (results1 @ results2 @ results3))
          else Inr (results1 @ results2)))"

text \<open>
  \<^verbatim>\<open>AgentRegistry.agent_exists\<close>: only \<^verbatim>\<open>AgentNotFoundError\<close> is caught.
\<close>

definition agent_exists ::
  "'p os \<Rightarrow> http_client \<Rightarrow> 'p agent_registry \<Rightarrow> string \<Rightarrow> string option \<Rightarrow> error + bool" where
  "agent_exists e client self name version =
     (case snd (agent_resolve e client self name version) of
        Inr result \<Rightarrow> Inr True
      | Inl (AgentNotFoundError n v s) \<Rightarrow> Inr False
      | Inl err \<Rightarrow> Inl err)"

text \<open>\<^verbatim>\<open>ToolRegistry\<close>, the same code over \<^verbatim>\<open>ToolConfig\<close> and \<^verbatim>\<open>ToolNotFoundError\<close>.\<close>

record 'p tool_registry =
  tool_config :: tool_config
  tool_local_resolver :: "'p option"
  tool_global_resolver :: "'p option"
  tool_remote_resolver :: string

definition ToolRegistry :: "'p os \<Rightarrow> tool_config \<Rightarrow> 'p tool_registry" where
  "ToolRegistry e cfg =
     \<lparr> tool_config = cfg,
       tool_local_resolver = local_init e (tool_local_registry_path cfg),
       tool_global_resolver = global_init e (tool_global_registry_path cfg),
       tool_remote_resolver = remote_init (tool_remote_registry_url cfg) \<rparr>"

definition tool_resolve ::
  "'p os \<Rightarrow> http_client \<Rightarrow> 'p tool_registry \<Rightarrow> string \<Rightarrow> string option
     \<Rightarrow> tier list \<times> (error + resolution_result)" where
  "tool_resolve e client self name version =
     (case local_resolve e (tool_local_resolver self) name version of
        Inl err \<Rightarrow> ([Local], Inl err)
      | Inr (Some result) \<Rightarrow> ([Local], Inr result)
      | Inr None \<Rightarrow>
     (case global_resolve e (tool_global_resolver self) name version of
        Inl err \<Rightarrow> ([Local, Global], Inl err)
      | Inr (Some result) \<Rightarrow> ([Local, Global], Inr result)
      | Inr None \<Rightarrow>
          if truthy_str (tool_remote_registry_url (tool_config self)) then
            (case remote_resolve client (tool_remote_resolver self) name version of
               Inr (Some result) \<Rightarrow> ([Local, Global, Remote], Inr result)
             | Inr None \<Rightarrow>
                 ([Local, Global, Remote],
                  Inl (ToolNotFoundError name version [''local'', ''global'', ''remote'']))
             | Inl exn \<Rightarrow>
                 ([Local, Global, Remote],
                  Inl (ToolNotFoundError name version [''local'', ''global'', ''remote''])))
          else
            ([Local, Global],
             Inl (ToolNotFoundError name version [''local'', ''global'', ''remote'']))))"

definition tool_list ::
  "'p os \<Rightarrow> http_client \<Rightarrow> 'p tool_registry \<Rightarrow> string option
     \<Rightarrow> error + resolution_result list" where
  "tool_list e client self source =
     (case (if source = None \<or> source = Some ''local''
            then local_list_all e (tool_local_resolver self) else Inr []) of
        Inl err \<Rightarrow> Inl err
      | Inr results1 \<Rightarrow>
     (case (if source = None \<or> source = Some ''global''
            then global_list_all e (tool_global_resolver self) else Inr []) of
        Inl err \<Rightarrow> Inl err
      | Inr results2 \<Rightarrow>
          if (source = None \<or> source = Some ''remote'')
             \<and> truthy_str (tool_remote_registry_url (tool_config self))
          then (case remote_list_all client (tool_remote_resolver self) of
                  Inl exn \<Rightarrow> Inr (results1 @ results2)
                | Inr results3 \<Rightarrow> Inr (results1 @ results2 @ results3))
          else Inr (results1 @ results2)))"

definition tool_exists ::
  "'p os \<Rightarrow> http_client \<Rightarrow> 'p tool_registry \<Rightarrow> string \<Rightarrow> string option \<Rightarrow> error + bool" where
  "tool_exists e client self name version =
     (case snd (tool_resolve e client self name version) of
        Inr result \<Rightarrow> Inr True
      | Inl (ToolNotFoundError n v s) \<Rightarrow> Inr False
      | Inl err \<Rightarrow> Inl err)"

section \<open>A concrete filesystem and HTTP service\<close>

text \<open>
  Paths as lists of components and a filesystem as a table from paths to nodes: a
  directory with the names \<^verbatim>\<open>iterdir\<close> yields, in that order, or a file with what loading
  it as YAML gives. This is the instance on which the theorems are exercised.
\<close>

datatype node = Directory "string list" | YamlFile "string + pyval"

text \<open>Splitting a path string at the slashes, dropping empty and \<^verbatim>\<open>.\<close> components.\<close>

fun path_parts :: "string \<Rightarrow> string \<Rightarrow> string list" where
  "path_parts acc [] = (if acc = [] \<or> acc = ''.'' then [] else [acc])"
| "path_parts acc (c # cs) =
     (if c = CHR ''/''
      then (if acc = [] \<or> acc = ''.'' then [] else [acc]) @ path_parts [] cs
      else path_parts (acc @ [c]) cs)"

fun join_parts :: "string list \<Rightarrow> string" where
  "join_parts [] = ''.''"
| "join_parts [p] = p"
| "join_parts (p # ps) = p @ ''/'' @ join_parts ps"

definition table_os :: "(string list \<times> node) list \<Rightarrow> string list os" where
  "table_os tbl =
     \<lparr> os_Path = path_parts [],
       os_joinpath = (\<lambda>p s. p @ path_parts [] s),
       os_name = (\<lambda>p. if p = [] then [] else last p),
       os_parent = butlast,
       os_str = join_parts,
       os_home = [''home'', ''user''],
       os_exists = (\<lambda>p. map_of tbl p \<noteq> None),
       os_is_dir = (\<lambda>p. case map_of tbl p of Some (Directory ns) \<Rightarrow> True | _ \<Rightarrow> False),
       os_iterdir = (\<lambda>p. case map_of tbl p of
                            Some (Directory ns) \<Rightarrow> Inr (map (\<lambda>n. p @ [n]) ns)
                          | Some (YamlFile c) \<Rightarrow> Inl ''NotADirectoryError''
                          | None \<Rightarrow> Inl ''FileNotFoundError''),
       os_load_yaml = (\<lambda>p. case map_of tbl p of
                              Some (YamlFile c) \<Rightarrow> c
                            | Some (Directory ns) \<Rightarrow> Inl ''IsADirectoryError''
                            | None \<Rightarrow> Inl ''FileNotFoundError'') \<rparr>"

text \<open>
  A project registry \<^verbatim>\<open>.forge\<close> and a user registry \<^verbatim>\<open>home/user/.forge\<close>. The project
  registry holds the agent \<^verbatim>\<open>demo\<close> in versions 10.0.0 and 2.0.0 and a tool of the same
  name in version 9.9.9; the user registry holds the agent \<^verbatim>\<open>shared\<close> in version 1.0.0.
\<close>

definition demo_doc :: "string \<Rightarrow> string \<Rightarrow> node" where
  "demo_doc n v = YamlFile (Inr (PDict [(''name'', PStr n), (''version'', PStr v)]))"

definition demo_files :: "(string list \<times> node) list" where
  "demo_files =
     [([''.forge''], Directory [''agents'', ''tools'']),
      ([''.forge'', ''agents''], Directory [''demo'']),
      ([''.forge'', ''agents'', ''demo''], Directory [''10.0.0'', ''2.0.0'']),
      ([''.forge'', ''agents'', ''demo'', ''10.0.0''], Directory [''definition.yaml'']),
      ([''.forge'', ''agents'', ''demo'', ''10.0.0'', ''definition.yaml''],
         demo_doc ''demo'' ''10.0.0''),
      ([''.forge'', ''agents'', ''demo'', ''2.0.0''], Directory [''definition.yaml'']),
      ([''.forge'', ''agents'', ''demo'', ''2.0.0'', ''definition.yaml''],
         demo_doc ''demo'' ''2.0.0''),
      ([''.forge'', ''tools''], Directory [''demo'']),
      ([''.forge'', ''tools'', ''demo''], Directory [''9.9.9'']),
      ([''.forge'', ''tools'', ''demo'', ''9.9.9''], Directory [''definition.yaml'']),
      ([''.forge'', ''tools'', ''demo'', ''9.9.9'', ''definition.yaml''],
         demo_doc ''demo'' ''9.9.9''),
      ([''home'', ''user'', ''.forge''], Directory [''agents'']),
      ([''home'', ''user'', ''.forge'', ''agents''], Directory [''shared'']),
      ([''home'', ''user'', ''.forge'', ''agents'', ''shared''], Directory [''1.0.0'']),
      ([''home'', ''user'', ''.forge'', ''agents'', ''shared'', ''1.0.0''],
         Directory [''definition.yaml'']),
      ([''home'', ''user'', ''.forge'', ''agents'', ''shared'', ''1.0.0'', ''definition.yaml''],
         demo_doc ''shared'' ''1.0.0'')]"

definition demo_os :: "string list os" where
  "demo_os = table_os demo_files"

text \<open>
  Registries with unreadable records: the project registry holds the tool \<^verbatim>\<open>broken\<close> and
  the user registry the agent \<^verbatim>\<open>stale\<close>, each with a definition document that does not
  parse.
\<close>

definition corrupt_files :: "(string list \<times> node) list" where
  "corrupt_files =
     [([''.forge''], Directory [''tools'']),
      ([''.forge'', ''tools''], Directory [''broken'']),
      ([''.forge'', ''tools'', ''broken''], Directory [''1.0.0'']),
      ([''.forge'', ''tools'', ''broken'', ''1.0.0''], Directory [''definition.yaml'']),
      ([''.forge'', ''tools'', ''broken'', ''1.0.0'', ''definition.yaml''],
         YamlFile (Inl ''ScannerError'')),
      ([''home'', ''user'', ''.forge''], Directory [''agents'']),
      ([''home'', ''user'', ''.forge'', ''agents''], Directory [''stale'']),
      ([''home'', ''user'', ''.forge'', ''agents'', ''stale''], Directory [''0.1.0'']),
      ([''home'', ''user'', ''.forge'', ''agents'', ''stale'', ''0.1.0''],
         Directory [''definition.yaml'']),
      ([''home'', ''user'', ''.forge'', ''agents'', ''stale'', ''0.1.0'', ''definition.yaml''],
         YamlFile (Inl ''ParserError''))]"

definition corrupt_os :: "string list os" where
  "corrupt_os = table_os corrupt_files"



text \<open>Remote services: unreachable, answering 404, and answering 200 with a fixed body.\<close>

definition client_down :: http_client where
  "client_down endpoint params = HTTPError ''ConnectError''"

definition client_404 :: http_client where
  "client_404 endpoint params = Response 404 None"

definition client_200 :: "pyval \<Rightarrow> http_client" where
  "client_200 body endpoint params = Response 200 (Some body)"

text \<open>Configurations without and with a remote registry URL.\<close>

definition demo_agent_config :: "string option \<Rightarrow> agent_config" where
  "demo_agent_config url =
     \<lparr> local_registry_path = None, global_registry_path = None, remote_registry_url = url,
       cache_enabled = True, cache_ttl = 3600, auto_install = False,
       strict_validation = True \<rparr>"

definition demo_tool_config :: "string option \<Rightarrow> tool_config" where
  "demo_tool_config url =
     \<lparr> tool_local_registry_path = None, tool_global_registry_path = None,
       tool_remote_registry_url = url, tool_cache_enabled = True, tool_cache_ttl = 3600,
       tool_timeout = 30000 \<rparr>"

definition demo_agents :: "string option \<Rightarrow> string list agent_registry" where
  "demo_agents url = AgentRegistry demo_os (demo_agent_config url)"

definition demo_tools :: "string option \<Rightarrow> string list tool_registry" where
  "demo_tools url = ToolRegistry demo_os (demo_tool_config url)"

definition corrupt_agents :: "string list agent_registry" where
  "corrupt_agents = AgentRegistry corrupt_os (demo_agent_config None)"

definition corrupt_tools :: "string list tool_registry" where
  "corrupt_tools = ToolRegistry corrupt_os (demo_tool_config None)"

text \<open>The result expected for a document written by \<open>demo_doc\<close>.\<close>

definition demo_result :: "string \<Rightarrow> string \<Rightarrow> string \<Rightarrow> string \<Rightarrow> resolution_result" where
  "demo_result n v p src =
     \<lparr> res_name = n, res_version = v, res_path = p, res_source = src,
       res_metadata = [(''name'', PStr n), (''version'', PStr v)] \<rparr>"

text \<open>Response bodies of the remote service: a complete record, and one without a version.\<close>

definition remote_doc :: pyval where
  "remote_doc = PDict [(''name'', PStr ''far''), (''version'', PStr ''3.1.0'')]"

definition remote_doc_no_version :: pyval where
  "remote_doc_no_version = PDict [(''name'', PStr ''far'')]"

text \<open>The result expected for the body \<open>remote_doc\<close>.\<close>

definition far_result :: resolution_result where
  "far_result =
     \<lparr> res_name = ''far'', res_version = ''3.1.0'', res_path = [], res_source = ''remote'',
       res_metadata = [] \<rparr>"

section \<open>Auxiliary facts\<close>


lemma sorted_last_Max:
  fixes ys :: "'a::linorder list"
  assumes "sorted ys" and "ys \<noteq> []"
  shows "last ys = Max (set ys)"
proof -
  have eq: "ys = butlast ys @ [last ys]" using assms(2) by simp
  have "sorted (butlast ys @ [last ys])" using assms(1) eq by simp
  then have le: "\<forall>y\<in>set (butlast ys). y \<le> last ys" by (simp add: sorted_append)
  have "\<And>y. y \<in> set ys \<Longrightarrow> y \<le> last ys"
  proof -
    fix y assume "y \<in> set ys"
    then have "y \<in> set (butlast ys @ [last ys])" using eq by simp
    then show "y \<le> last ys" using le by auto
  qed
  moreover have "last ys \<in> set ys" using assms(2) by simp
  ultimately show ?thesis by (intro Max_eqI[symmetric]) auto
qed

text \<open>The descending sort puts the lexically greatest string first.\<close>

lemma sort_reverse_Cons:
  assumes "xs \<noteq> []"
  shows "\<exists>rest. sort_reverse xs = Max (set xs) # rest"
proof -
  have ne: "sort xs \<noteq> []" using assms by (metis length_0_conv length_sort)
  have "last (sort xs) = Max (set (sort xs))" using sorted_last_Max[OF sorted_sort ne] .
  then have l: "last (sort xs) = Max (set xs)" by simp
  obtain b z where bz: "sort xs = b @ [z]"
    using ne by (cases "sort xs" rule: rev_exhaust) auto
  then have "z = Max (set xs)" using l by simp
  then have "rev (sort xs) = Max (set xs) # rev b" using bz by simp
  then show ?thesis by (simp add: sort_reverse_def)
qed


text \<open>What \<open>find_version\<close> does for a requested version and without one.\<close>

lemma find_version_explicit:
  assumes "os_exists e base_dir" and "truthy_str version"
    and "version_file = os_joinpath e (os_joinpath e base_dir (the version)) ''definition.yaml''"
  shows "find_version e base_dir name version =
           (if os_exists e version_file
            then map_sum id Some (create_result e name (the version) version_file)
            else Inr None)"
  using assms by (simp add: find_version_def Let_def)

lemma find_version_implicit:
  assumes "\<not> truthy_str version"
    and "os_exists e base_dir"
    and "os_iterdir e base_dir = Inr ds"
    and "versions = map (os_name e) (filter (os_is_dir e) ds)"
    and "versions \<noteq> []"
    and "version_file =
           os_joinpath e (os_joinpath e base_dir (Max (set versions))) ''definition.yaml''"
  shows "find_version e base_dir name version =
           (if os_exists e version_file
            then map_sum id Some (create_result e name (Max (set versions)) version_file)
            else Inr None)"
proof -
  obtain rest where s: "sort_reverse versions = Max (set versions) # rest"
    using sort_reverse_Cons[OF assms(5)] by blast
  show ?thesis
    using assms(1,2,3) s[unfolded assms(4)] assms(6) assms(4)
    by (simp add: find_version_def Let_def)
qed

lemma create_result_unreadable:
  "os_load_yaml e p = Inl exn \<Longrightarrow>
     create_result e name v p = Inl (ResolutionError name (os_str e p))"
  by (simp add: create_result_def)

text \<open>The two iterations of the bucket loop of \<open>local_resolve\<close>, unrolled.\<close>

lemma local_resolve_buckets:
  assumes "os_exists e root"
    and "parse_name_version name = (parsed_name, parsed_version)"
    and "v = py_or version parsed_version"
    and "agents_dir = os_joinpath e (os_joinpath e root ''agents'') parsed_name"
    and "tools_dir = os_joinpath e (os_joinpath e root ''tools'') parsed_name"
  shows "local_resolve e (Some root) name version =
           (if os_exists e agents_dir \<and> find_version e agents_dir parsed_name v \<noteq> Inr None
            then find_version e agents_dir parsed_name v
            else if os_exists e tools_dir then find_version e tools_dir parsed_name v
            else Inr None)"
  using assms
  by (auto simp: local_resolve_def Let_def split: sum.splits option.splits)

text \<open>Every token with an \<^verbatim>\<open>@\<close> is a prefix free of \<^verbatim>\<open>@\<close>, the sign, and a rest.\<close>

lemma token_with_at_decomposes:
  assumes "CHR ''@'' \<in> set token"
  shows "\<exists>n v. token = n @ ''@'' @ v \<and> CHR ''@'' \<notin> set n"
proof -
  obtain n v where "token = n @ CHR ''@'' # v" and "CHR ''@'' \<notin> set n"
    using split_list_first[OF assms] by blast
  then show ?thesis by auto
qed

section \<open>Identifier parsing\<close>

text \<open>
  C9: a token without \<^verbatim>\<open>@\<close> is returned as the name with no version; a token with an
  \<^verbatim>\<open>@\<close> is split at the first one only, so a name \<open>n\<close> free of \<^verbatim>\<open>@\<close> followed by
  \<^verbatim>\<open>@\<close> and any rest \<open>v\<close> (which may contain further \<^verbatim>\<open>@\<close>) gives name \<open>n\<close> and version
  \<open>v\<close>.
\<close>

theorem parse_name_version_first_at:
  "(CHR ''@'' \<notin> set token \<longrightarrow> parse_name_version token = (token, None)) \<and>
   (CHR ''@'' \<notin> set n \<longrightarrow> parse_name_version (n @ ''@'' @ v) = (n, Some v))"
  by (simp add: parse_name_version_def split_at_first_def takeWhile_append dropWhile_append
      takeWhile_eq_all_conv[THEN iffD2] dropWhile_eq_Nil_conv[THEN iffD2])

theorem parse_name_version_first_at_witness:
  "CHR ''@'' \<notin> set ''my-agent'' \<and> parse_name_version ''my-agent'' = (''my-agent'', None) \<and>
   CHR ''@'' \<notin> set ''a'' \<and> parse_name_version ''a@b@c'' = (''a'', Some ''b@c'')"
  using parse_name_version_first_at[of "''my-agent''" "''a''" "''b@c''"] by simp

section \<open>Version selection\<close>




section \<open>Kind buckets\<close>

text \<open>
  C10: \<open>local_resolve\<close> searches the bucket \<^verbatim>\<open>agents\<close> first. When the name directory
  exists there and \<open>find_version\<close> on it gives anything but absent, that outcome is the
  outcome of the resolve, whatever the bucket \<^verbatim>\<open>tools\<close> holds; the bucket \<^verbatim>\<open>tools\<close>
  decides the outcome only when the name directory is missing under \<^verbatim>\<open>agents\<close> or yields
  no result there.
\<close>

theorem resolve_agents_shadow_tools:
  assumes "os_exists e root"
    and "parse_name_version name = (parsed_name, parsed_version)"
    and "v = py_or version parsed_version"
    and "agents_dir = os_joinpath e (os_joinpath e root ''agents'') parsed_name"
    and "tools_dir = os_joinpath e (os_joinpath e root ''tools'') parsed_name"
  shows "(os_exists e agents_dir \<and> find_version e agents_dir parsed_name v \<noteq> Inr None \<longrightarrow>
            local_resolve e (Some root) name version = find_version e agents_dir parsed_name v)
       \<and> (\<not> os_exists e agents_dir \<or> find_version e agents_dir parsed_name v = Inr None \<longrightarrow>
            local_resolve e (Some root) name version =
              (if os_exists e tools_dir then find_version e tools_dir parsed_name v else Inr None))"
  using local_resolve_buckets[OF assms] by auto

theorem resolve_agents_shadow_tools_witness:
  "os_exists demo_os [''.forge'', ''agents'', ''demo''] \<and>
   os_exists demo_os [''.forge'', ''tools'', ''demo''] \<and>
   local_resolve demo_os (Some [''.forge'']) ''demo'' None =
     Inr (Some (demo_result ''demo'' ''2.0.0'' ''.forge/agents/demo/2.0.0'' ''local'')) \<and>
   find_version demo_os [''.forge'', ''tools'', ''demo''] ''demo'' None =
     Inr (Some (demo_result ''demo'' ''9.9.9'' ''.forge/tools/demo/9.9.9'' ''local'')) \<and>
   find_version demo_os [''.forge'', ''agents'', ''demo''] ''demo'' (Some ''9.9.9'') = Inr None \<and>
   local_resolve demo_os (Some [''.forge'']) ''demo'' (Some ''9.9.9'') =
     Inr (Some (demo_result ''demo'' ''9.9.9'' ''.forge/tools/demo/9.9.9'' ''local''))"
proof -
  have root: "os_exists demo_os [''.forge'']" by code_simp
  have p: "parse_name_version ''demo'' = (''demo'', None)" by code_simp
  have a: "[''.forge'', ''agents'', ''demo''] =
             os_joinpath demo_os (os_joinpath demo_os [''.forge''] ''agents'') ''demo''"
    by code_simp
  have t: "[''.forge'', ''tools'', ''demo''] =
             os_joinpath demo_os (os_joinpath demo_os [''.forge''] ''tools'') ''demo''"
    by code_simp
  have ea: "os_exists demo_os [''.forge'', ''agents'', ''demo'']" by code_simp
  have et: "os_exists demo_os [''.forge'', ''tools'', ''demo'']" by code_simp
  have v1: "py_or None None = None" by code_simp
  have v2: "py_or (Some ''9.9.9'') None = Some ''9.9.9''" by code_simp
  have fa1: "find_version demo_os [''.forge'', ''agents'', ''demo''] ''demo'' None =
     Inr (Some (demo_result ''demo'' ''2.0.0'' ''.forge/agents/demo/2.0.0'' ''local''))"
    by code_simp
  have ft1: "find_version demo_os [''.forge'', ''tools'', ''demo''] ''demo'' None =
     Inr (Some (demo_result ''demo'' ''9.9.9'' ''.forge/tools/demo/9.9.9'' ''local''))"
    by code_simp
  have fa2: "find_version demo_os [''.forge'', ''agents'', ''demo''] ''demo'' (Some ''9.9.9'') =
     Inr None"
    by code_simp
  have ft2: "find_version demo_os [''.forge'', ''tools'', ''demo''] ''demo'' (Some ''9.9.9'') =
     Inr (Some (demo_result ''demo'' ''9.9.9'' ''.forge/tools/demo/9.9.9'' ''local''))"
    by code_simp
  have w1: "local_resolve demo_os (Some [''.forge'']) ''demo'' None =
     Inr (Some (demo_result ''demo'' ''2.0.0'' ''.forge/agents/demo/2.0.0'' ''local''))"
    using resolve_agents_shadow_tools[OF root p refl a t, of None] ea fa1 by (simp add: v1)
  have w2: "local_resolve demo_os (Some [''.forge'']) ''demo'' (Some ''9.9.9'') =
     Inr (Some (demo_result ''demo'' ''9.9.9'' ''.forge/tools/demo/9.9.9'' ''local''))"
    using resolve_agents_shadow_tools[OF root p refl a t, of "Some ''9.9.9''"] et fa2 ft2
    by (simp add: v2)
  show ?thesis using ea et w1 ft1 fa2 w2 by simp
qed

section \<open>Tiered resolution\<close>

text \<open>
  C1: \<open>agent_resolve\<close> and \<open>tool_resolve\<close> call the local resolver first and return its
  result when it has one, having called nothing else; on absence they call the global
  resolver and return its result when it has one; on absence again, and only when a remote
  URL is configured, they call the remote resolver and return its result when it has one;
  when no tier produced a result they fail with \<open>AgentNotFoundError\<close>, respectively
  \<open>ToolNotFoundError\<close>, for the requested name. The first component is the list of
  resolvers called, in call order.
\<close>

theorem resolve_tier_order:
  assumes "L = local_resolve e (local_resolver self) name version"
    and "G = global_resolve e (global_resolver self) name version"
    and "R = remote_resolve client (remote_resolver self) name version"
    and "configured = truthy_str (remote_registry_url (config self))"
    and "TL = local_resolve e (tool_local_resolver tself) name version"
    and "TG = global_resolve e (tool_global_resolver tself) name version"
    and "TR = remote_resolve client (tool_remote_resolver tself) name version"
    and "tconfigured = truthy_str (tool_remote_registry_url (tool_config tself))"
  shows "(L = Inr (Some r) \<longrightarrow>
            agent_resolve e client self name version = ([Local], Inr r))
       \<and> (L = Inr None \<and> G = Inr (Some r) \<longrightarrow>
            agent_resolve e client self name version = ([Local, Global], Inr r))
       \<and> (L = Inr None \<and> G = Inr None \<and> configured \<and> R = Inr (Some r) \<longrightarrow>
            agent_resolve e client self name version = ([Local, Global, Remote], Inr r))
       \<and> (L = Inr None \<and> G = Inr None \<and> configured \<and> (\<forall>r'. R \<noteq> Inr (Some r')) \<longrightarrow>
            (\<exists>v s. agent_resolve e client self name version =
                     ([Local, Global, Remote], Inl (AgentNotFoundError name v s))))
       \<and> (L = Inr None \<and> G = Inr None \<and> \<not> configured \<longrightarrow>
            (\<exists>v s. agent_resolve e client self name version =
                     ([Local, Global], Inl (AgentNotFoundError name v s))))
       \<and> (TL = Inr (Some r) \<longrightarrow>
            tool_resolve e client tself name version = ([Local], Inr r))
       \<and> (TL = Inr None \<and> TG = Inr (Some r) \<longrightarrow>
            tool_resolve e client tself name version = ([Local, Global], Inr r))
       \<and> (TL = Inr None \<and> TG = Inr None \<and> tconfigured \<and> TR = Inr (Some r) \<longrightarrow>
            tool_resolve e client tself name version = ([Local, Global, Remote], Inr r))
       \<and> (TL = Inr None \<and> TG = Inr None \<and> tconfigured \<and> (\<forall>r'. TR \<noteq> Inr (Some r')) \<longrightarrow>
            (\<exists>v s. tool_resolve e client tself name version =
                     ([Local, Global, Remote], Inl (ToolNotFoundError name v s))))
       \<and> (TL = Inr None \<and> TG = Inr None \<and> \<not> tconfigured \<longrightarrow>
            (\<exists>v s. tool_resolve e client tself name version =
                     ([Local, Global], Inl (ToolNotFoundError name v s))))"
  unfolding assms
  by (intro conjI impI; (elim conjE)?; simp add: agent_resolve_def tool_resolve_def split: sum.splits option.splits)

theorem resolve_tier_order_witness:
  "agent_resolve demo_os client_404 (demo_agents None) ''demo'' None =
     ([Local], Inr (demo_result ''demo'' ''2.0.0'' ''.forge/agents/demo/2.0.0'' ''local'')) \<and>
   agent_resolve demo_os client_404 (demo_agents None) ''shared'' None =
     ([Local, Global],
      Inr (demo_result ''shared'' ''1.0.0'' ''home/user/.forge/agents/shared/1.0.0'' ''global'')) \<and>
   agent_resolve demo_os (client_200 remote_doc) (demo_agents (Some ''https://r.example''))
       ''far'' None =
     ([Local, Global, Remote], Inr far_result) \<and>
   (\<exists>v s. agent_resolve demo_os client_404 (demo_agents (Some ''https://r.example''))
             ''far'' None =
           ([Local, Global, Remote], Inl (AgentNotFoundError ''far'' v s))) \<and>
   (\<exists>v s. agent_resolve demo_os (client_200 remote_doc) (demo_agents None) ''far'' None =
           ([Local, Global], Inl (AgentNotFoundError ''far'' v s))) \<and>
   tool_resolve demo_os client_404 (demo_tools None) ''demo'' None =
     ([Local], Inr (demo_result ''demo'' ''2.0.0'' ''.forge/agents/demo/2.0.0'' ''local'')) \<and>
   tool_resolve demo_os client_404 (demo_tools None) ''shared'' None =
     ([Local, Global],
      Inr (demo_result ''shared'' ''1.0.0'' ''home/user/.forge/agents/shared/1.0.0'' ''global'')) \<and>
   tool_resolve demo_os (client_200 remote_doc) (demo_tools (Some ''https://r.example''))
       ''far'' None =
     ([Local, Global, Remote], Inr far_result) \<and>
   (\<exists>v s. tool_resolve demo_os client_404 (demo_tools (Some ''https://r.example''))
             ''far'' None =
           ([Local, Global, Remote], Inl (ToolNotFoundError ''far'' v s))) \<and>
   (\<exists>v s. tool_resolve demo_os (client_200 remote_doc) (demo_tools None) ''far'' None =
           ([Local, Global], Inl (ToolNotFoundError ''far'' v s)))"
proof -
  let ?u = "Some ''https://r.example''"
  let ?demo = "demo_result ''demo'' ''2.0.0'' ''.forge/agents/demo/2.0.0'' ''local''"
  let ?shared = "demo_result ''shared'' ''1.0.0'' ''home/user/.forge/agents/shared/1.0.0'' ''global''"
  let ?far = "far_result"
  have cN: "\<not> truthy_str (remote_registry_url (config (demo_agents None)))" by code_simp
  have cU: "truthy_str (remote_registry_url (config (demo_agents ?u)))" by code_simp
  have tcN: "\<not> truthy_str (tool_remote_registry_url (tool_config (demo_tools None)))"
    by code_simp
  have tcU: "truthy_str (tool_remote_registry_url (tool_config (demo_tools ?u)))" by code_simp
  have L1: "local_resolve demo_os (local_resolver (demo_agents None)) ''demo'' None =
              Inr (Some ?demo)" by code_simp
  have L2: "local_resolve demo_os (local_resolver (demo_agents None)) ''shared'' None = Inr None"
    by code_simp
  have G2: "global_resolve demo_os (global_resolver (demo_agents None)) ''shared'' None =
              Inr (Some ?shared)" by code_simp
  have L3: "local_resolve demo_os (local_resolver (demo_agents ?u)) ''far'' None = Inr None"
    by code_simp
  have G3: "global_resolve demo_os (global_resolver (demo_agents ?u)) ''far'' None = Inr None"
    by code_simp
  have R3: "remote_resolve (client_200 remote_doc) (remote_resolver (demo_agents ?u)) ''far'' None
              = Inr (Some ?far)" by code_simp
  have R4: "remote_resolve client_404 (remote_resolver (demo_agents ?u)) ''far'' None = Inr None"
    by code_simp
  have L5: "local_resolve demo_os (local_resolver (demo_agents None)) ''far'' None = Inr None"
    by code_simp
  have G5: "global_resolve demo_os (global_resolver (demo_agents None)) ''far'' None = Inr None"
    by code_simp
  have TL1: "local_resolve demo_os (tool_local_resolver (demo_tools None)) ''demo'' None =
              Inr (Some ?demo)" by code_simp
  have TL2: "local_resolve demo_os (tool_local_resolver (demo_tools None)) ''shared'' None =
              Inr None" by code_simp
  have TG2: "global_resolve demo_os (tool_global_resolver (demo_tools None)) ''shared'' None =
              Inr (Some ?shared)" by code_simp
  have TL3: "local_resolve demo_os (tool_local_resolver (demo_tools ?u)) ''far'' None = Inr None"
    by code_simp
  have TG3: "global_resolve demo_os (tool_global_resolver (demo_tools ?u)) ''far'' None = Inr None"
    by code_simp
  have TR3: "remote_resolve (client_200 remote_doc) (tool_remote_resolver (demo_tools ?u))
               ''far'' None = Inr (Some ?far)" by code_simp
  have TR4: "remote_resolve client_404 (tool_remote_resolver (demo_tools ?u)) ''far'' None =
               Inr None" by code_simp
  have TL5: "local_resolve demo_os (tool_local_resolver (demo_tools None)) ''far'' None = Inr None"
    by code_simp
  have TG5: "global_resolve demo_os (tool_global_resolver (demo_tools None)) ''far'' None =
               Inr None" by code_simp
  note t1 = resolve_tier_order[where e=demo_os and client=client_404
      and self="demo_agents None" and tself="demo_tools None"
      and name="''demo''" and version=None and r="?demo",
      OF refl refl refl refl refl refl refl refl]
  note t2 = resolve_tier_order[where e=demo_os and client=client_404
      and self="demo_agents None" and tself="demo_tools None"
      and name="''shared''" and version=None and r="?shared",
      OF refl refl refl refl refl refl refl refl]
  note t3 = resolve_tier_order[where e=demo_os and client="client_200 remote_doc"
      and self="demo_agents ?u" and tself="demo_tools ?u"
      and name="''far''" and version=None and r="?far",
      OF refl refl refl refl refl refl refl refl]
  note t4 = resolve_tier_order[where e=demo_os and client=client_404
      and self="demo_agents ?u" and tself="demo_tools ?u"
      and name="''far''" and version=None and r="?far",
      OF refl refl refl refl refl refl refl refl]
  note t5 = resolve_tier_order[where e=demo_os and client="client_200 remote_doc"
      and self="demo_agents None" and tself="demo_tools None"
      and name="''far''" and version=None and r="?far",
      OF refl refl refl refl refl refl refl refl]
  have a1: "agent_resolve demo_os client_404 (demo_agents None) ''demo'' None =
              ([Local], Inr ?demo)"
    using t1 L1 by blast
  have a2: "agent_resolve demo_os client_404 (demo_agents None) ''shared'' None =
              ([Local, Global], Inr ?shared)"
    using t2 L2 G2 by blast
  have a3: "agent_resolve demo_os (client_200 remote_doc) (demo_agents ?u) ''far'' None =
              ([Local, Global, Remote], Inr ?far)"
    using t3 L3 G3 cU R3 by blast
  have a4: "\<exists>v s. agent_resolve demo_os client_404 (demo_agents ?u) ''far'' None =
              ([Local, Global, Remote], Inl (AgentNotFoundError ''far'' v s))"
    using t4 L3 G3 cU R4 by simp
  have a5: "\<exists>v s. agent_resolve demo_os (client_200 remote_doc) (demo_agents None) ''far'' None =
              ([Local, Global], Inl (AgentNotFoundError ''far'' v s))"
    using t5 L5 G5 cN by simp
  have b1: "tool_resolve demo_os client_404 (demo_tools None) ''demo'' None =
              ([Local], Inr ?demo)"
    using t1 TL1 by blast
  have b2: "tool_resolve demo_os client_404 (demo_tools None) ''shared'' None =
              ([Local, Global], Inr ?shared)"
    using t2 TL2 TG2 by blast
  have b3: "tool_resolve demo_os (client_200 remote_doc) (demo_tools ?u) ''far'' None =
              ([Local, Global, Remote], Inr ?far)"
    using t3 TL3 TG3 tcU TR3 by blast
  have b4: "\<exists>v s. tool_resolve demo_os client_404 (demo_tools ?u) ''far'' None =
              ([Local, Global, Remote], Inl (ToolNotFoundError ''far'' v s))"
    using t4 TL3 TG3 tcU TR4 by simp
  have b5: "\<exists>v s. tool_resolve demo_os (client_200 remote_doc) (demo_tools None) ''far'' None =
              ([Local, Global], Inl (ToolNotFoundError ''far'' v s))"
    using t5 TL5 TG5 tcN by simp
  show ?thesis using a1 a2 a3 a4 a5 b1 b2 b3 b4 b5 by (intro conjI)
qed

section \<open>Unreadable records\<close>

text \<open>
  C4: a definition document that cannot be loaded makes \<open>create_result\<close> fail with
  \<open>ResolutionError\<close> carrying the artifact name and the path of the document; \<open>find_version\<close>
  fails with that error when the document it selects (the requested version, or the
  lexically greatest one) exists and cannot be loaded; \<open>local_resolve\<close> and
  \<open>global_resolve\<close> pass the error on from either bucket; and \<open>agent_resolve\<close> and
  \<open>tool_resolve\<close> end with the error of the local resolver after calling only it, and with
  the error of the global resolver after calling only the local and the global one.
\<close>

theorem unreadable_definition_propagates:
  assumes "L = local_resolve e (local_resolver self) name version"
    and "G = global_resolve e (global_resolver self) name version"
    and "TL = local_resolve e (tool_local_resolver tself) name version"
    and "TG = global_resolve e (tool_global_resolver tself) name version"
    and "explicit_file = os_joinpath e (os_joinpath e base_dir (the v)) ''definition.yaml''"
    and "versions = map (os_name e) (filter (os_is_dir e) ds)"
    and "latest_file =
           os_joinpath e (os_joinpath e base_dir (Max (set versions))) ''definition.yaml''"
    and "agents_dir = os_joinpath e (os_joinpath e root ''agents'') (fst (parse_name_version name))"
    and "tools_dir = os_joinpath e (os_joinpath e root ''tools'') (fst (parse_name_version name))"
    and "v' = py_or version (snd (parse_name_version name))"
  shows "(os_load_yaml e p = Inl exn \<longrightarrow>
            create_result e n ver p = Inl (ResolutionError n (os_str e p)))
       \<and> (os_exists e base_dir \<and> truthy_str v \<and> os_exists e explicit_file
            \<and> os_load_yaml e explicit_file = Inl exn \<longrightarrow>
            find_version e base_dir n v = Inl (ResolutionError n (os_str e explicit_file)))
       \<and> (os_exists e base_dir \<and> \<not> truthy_str v \<and> os_iterdir e base_dir = Inr ds
            \<and> versions \<noteq> [] \<and> os_exists e latest_file
            \<and> os_load_yaml e latest_file = Inl exn \<longrightarrow>
            find_version e base_dir n v = Inl (ResolutionError n (os_str e latest_file)))
       \<and> (os_exists e root \<and> os_exists e agents_dir
            \<and> find_version e agents_dir (fst (parse_name_version name)) v' = Inl err \<longrightarrow>
            local_resolve e (Some root) name version = Inl err)
       \<and> (os_exists e root
            \<and> (\<not> os_exists e agents_dir
                \<or> find_version e agents_dir (fst (parse_name_version name)) v' = Inr None)
            \<and> os_exists e tools_dir
            \<and> find_version e tools_dir (fst (parse_name_version name)) v' = Inl err \<longrightarrow>
            local_resolve e (Some root) name version = Inl err)
       \<and> (local_resolve e registry_path name version = Inl err \<longrightarrow>
            global_resolve e registry_path name version = Inl err)
       \<and> (L = Inl err \<longrightarrow> agent_resolve e client self name version = ([Local], Inl err))
       \<and> (L = Inr None \<and> G = Inl err \<longrightarrow>
            agent_resolve e client self name version = ([Local, Global], Inl err))
       \<and> (TL = Inl err \<longrightarrow> tool_resolve e client tself name version = ([Local], Inl err))
       \<and> (TL = Inr None \<and> TG = Inl err \<longrightarrow>
            tool_resolve e client tself name version = ([Local, Global], Inl err))"
proof (intro conjI impI; (elim conjE)?)
  show "os_load_yaml e p = Inl exn \<Longrightarrow>
          create_result e n ver p = Inl (ResolutionError n (os_str e p))"
    by (rule create_result_unreadable)
next
  assume "os_exists e base_dir" "truthy_str v" "os_exists e explicit_file"
    "os_load_yaml e explicit_file = Inl exn"
  then show "find_version e base_dir n v = Inl (ResolutionError n (os_str e explicit_file))"
    using find_version_explicit[OF _ _ assms(5), of n] 
    by (simp add: create_result_unreadable)
next
  assume "os_exists e base_dir" "\<not> truthy_str v" "os_iterdir e base_dir = Inr ds"
    "versions \<noteq> []" "os_exists e latest_file" "os_load_yaml e latest_file = Inl exn"
  then show "find_version e base_dir n v = Inl (ResolutionError n (os_str e latest_file))"
    using find_version_implicit[OF _ _ _ assms(6) _ assms(7), of v n] 
    by (simp add: create_result_unreadable)
next
  assume "os_exists e root" "os_exists e agents_dir"
    "find_version e agents_dir (fst (parse_name_version name)) v' = Inl err"
  then show "local_resolve e (Some root) name version = Inl err"
    using local_resolve_buckets[OF _ _ assms(10) assms(8) assms(9)] 
    by simp
next
  assume "os_exists e root" 
     "\<not> os_exists e agents_dir
                \<or> find_version e agents_dir (fst (parse_name_version name)) v' = Inr None"
     "os_exists e tools_dir" "find_version e tools_dir (fst (parse_name_version name)) v' = Inl err"
  then show "local_resolve e (Some root) name version = Inl err"
    using local_resolve_buckets[OF _ _ assms(10) assms(8) assms(9)] 
    by auto
next
  show "local_resolve e registry_path name version = Inl err \<Longrightarrow>
            global_resolve e registry_path name version = Inl err"
    by (simp add: global_resolve_def)
next
  show "L = Inl err \<Longrightarrow> agent_resolve e client self name version = ([Local], Inl err)"
    unfolding assms by (simp add: agent_resolve_def)
next
  show "L = Inr None \<Longrightarrow> G = Inl err \<Longrightarrow>
            agent_resolve e client self name version = ([Local, Global], Inl err)"
    unfolding assms by (simp add: agent_resolve_def)
next
  show "TL = Inl err \<Longrightarrow> tool_resolve e client tself name version = ([Local], Inl err)"
    unfolding assms by (simp add: tool_resolve_def)
next
  show "TL = Inr None \<Longrightarrow> TG = Inl err \<Longrightarrow>
            tool_resolve e client tself name version = ([Local, Global], Inl err)"
    unfolding assms by (simp add: tool_resolve_def)
qed

theorem unreadable_definition_propagates_witness:
  "os_load_yaml corrupt_os [''.forge'', ''tools'', ''broken'', ''1.0.0'', ''definition.yaml''] =
     Inl ''ScannerError'' \<and>
   create_result corrupt_os ''broken'' ''1.0.0''
       [''.forge'', ''tools'', ''broken'', ''1.0.0'', ''definition.yaml''] =
     Inl (ResolutionError ''broken'' ''.forge/tools/broken/1.0.0/definition.yaml'') \<and>
   find_version corrupt_os [''.forge'', ''tools'', ''broken''] ''broken'' (Some ''1.0.0'') =
     Inl (ResolutionError ''broken'' ''.forge/tools/broken/1.0.0/definition.yaml'') \<and>
   find_version corrupt_os [''.forge'', ''tools'', ''broken''] ''broken'' None =
     Inl (ResolutionError ''broken'' ''.forge/tools/broken/1.0.0/definition.yaml'') \<and>
   local_resolve corrupt_os (Some [''home'', ''user'', ''.forge'']) ''stale'' None =
     Inl (ResolutionError ''stale'' ''home/user/.forge/agents/stale/0.1.0/definition.yaml'') \<and>
   local_resolve corrupt_os (Some [''.forge'']) ''broken'' None =
     Inl (ResolutionError ''broken'' ''.forge/tools/broken/1.0.0/definition.yaml'') \<and>
   global_resolve corrupt_os (Some [''home'', ''user'', ''.forge'']) ''stale'' None =
     Inl (ResolutionError ''stale'' ''home/user/.forge/agents/stale/0.1.0/definition.yaml'') \<and>
   agent_resolve corrupt_os client_404 corrupt_agents ''broken'' None =
     ([Local], Inl (ResolutionError ''broken'' ''.forge/tools/broken/1.0.0/definition.yaml'')) \<and>
   agent_resolve corrupt_os client_404 corrupt_agents ''stale'' None =
     ([Local, Global],
      Inl (ResolutionError ''stale'' ''home/user/.forge/agents/stale/0.1.0/definition.yaml'')) \<and>
   tool_resolve corrupt_os client_404 corrupt_tools ''broken'' None =
     ([Local], Inl (ResolutionError ''broken'' ''.forge/tools/broken/1.0.0/definition.yaml'')) \<and>
   tool_resolve corrupt_os client_404 corrupt_tools ''stale'' None =
     ([Local, Global],
      Inl (ResolutionError ''stale'' ''home/user/.forge/agents/stale/0.1.0/definition.yaml''))"
proof -
  let ?bdir = "[''.forge'', ''tools'', ''broken'']"
  let ?bfile = "[''.forge'', ''tools'', ''broken'', ''1.0.0'', ''definition.yaml'']"
  let ?berr = "ResolutionError ''broken'' ''.forge/tools/broken/1.0.0/definition.yaml''"
  let ?sdir = "[''home'', ''user'', ''.forge'', ''agents'', ''stale'']"
  let ?serr = "ResolutionError ''stale'' ''home/user/.forge/agents/stale/0.1.0/definition.yaml''"
  note t = unreadable_definition_propagates[where e=corrupt_os and client=client_404
      and self=corrupt_agents and tself=corrupt_tools and version=None,
      OF refl refl refl refl refl refl refl refl refl refl]
  have load: "os_load_yaml corrupt_os ?bfile = Inl ''ScannerError''" by code_simp
  have str: "os_str corrupt_os ?bfile = ''.forge/tools/broken/1.0.0/definition.yaml''"
    by code_simp
  have w1: "create_result corrupt_os ''broken'' ''1.0.0'' ?bfile = Inl ?berr"
    using t[where p="?bfile" and exn="''ScannerError''" and n="''broken''" and ver="''1.0.0''",
        THEN conjunct1] load str by simp
  have ex_dir: "os_exists corrupt_os ?bdir" by code_simp
  have ex_file: "os_exists corrupt_os ?bfile" by code_simp
  have explicit: "os_joinpath corrupt_os (os_joinpath corrupt_os ?bdir (the (Some ''1.0.0'')))
                    ''definition.yaml'' = ?bfile" by code_simp
  have w2: "find_version corrupt_os ?bdir ''broken'' (Some ''1.0.0'') = Inl ?berr"
    using t[where base_dir="?bdir" and v="Some ''1.0.0''" and exn="''ScannerError''"
        and n="''broken''", THEN conjunct2, THEN conjunct1]
      ex_dir ex_file load str explicit by simp
  have it: "os_iterdir corrupt_os ?bdir = Inr [[''.forge'', ''tools'', ''broken'', ''1.0.0'']]"
    by code_simp
  have vs: "map (os_name corrupt_os)
              (filter (os_is_dir corrupt_os) [[''.forge'', ''tools'', ''broken'', ''1.0.0'']])
            = [''1.0.0'']" by code_simp
  have latest: "os_joinpath corrupt_os (os_joinpath corrupt_os ?bdir ''1.0.0'')
                    ''definition.yaml'' = ?bfile" by code_simp
  have mx: "Max (set [''1.0.0'']) = ''1.0.0''" by simp
  have w3: "find_version corrupt_os ?bdir ''broken'' None = Inl ?berr"
    using t[where base_dir="?bdir" and v=None and exn="''ScannerError''" and n="''broken''"
        and ds="[[''.forge'', ''tools'', ''broken'', ''1.0.0'']]",
        THEN conjunct2, THEN conjunct2, THEN conjunct1, unfolded vs mx latest]
      ex_dir ex_file load str it by simp
  have pb: "parse_name_version ''broken'' = (''broken'', None)" by code_simp
  have ps: "parse_name_version ''stale'' = (''stale'', None)" by code_simp
  have po: "py_or None None = None" by code_simp
  have groot: "os_exists corrupt_os [''home'', ''user'', ''.forge'']" by code_simp
  have sdir: "os_joinpath corrupt_os
                (os_joinpath corrupt_os [''home'', ''user'', ''.forge''] ''agents'') ''stale'' = ?sdir"
    by code_simp
  have ex_sdir: "os_exists corrupt_os ?sdir" by code_simp
  have fs: "find_version corrupt_os ?sdir ''stale'' None = Inl ?serr" by code_simp
  have w4: "local_resolve corrupt_os (Some [''home'', ''user'', ''.forge'']) ''stale'' None =
              Inl ?serr"
    using t[where root="[''home'', ''user'', ''.forge'']" and name="''stale''" and err="?serr",
        THEN conjunct2, THEN conjunct2, THEN conjunct2, THEN conjunct1]
      groot ex_sdir fs by (simp add: ps po sdir)
  have lroot: "os_exists corrupt_os [''.forge'']" by code_simp
  have badir: "os_joinpath corrupt_os (os_joinpath corrupt_os [''.forge''] ''agents'') ''broken''
                 = [''.forge'', ''agents'', ''broken'']" by code_simp
  have btdir: "os_joinpath corrupt_os (os_joinpath corrupt_os [''.forge''] ''tools'') ''broken''
                 = ?bdir" by code_simp
  have nex: "\<not> os_exists corrupt_os [''.forge'', ''agents'', ''broken'']" by code_simp
  have w5: "local_resolve corrupt_os (Some [''.forge'']) ''broken'' None = Inl ?berr"
    using t[where root="[''.forge'']" and name="''broken''" and err="?berr",
        THEN conjunct2, THEN conjunct2, THEN conjunct2, THEN conjunct2, THEN conjunct1]
      lroot nex ex_dir w3 by (simp add: pb po badir btdir)
  have w6: "global_resolve corrupt_os (Some [''home'', ''user'', ''.forge'']) ''stale'' None =
              Inl ?serr"
    using t[where registry_path="Some [''home'', ''user'', ''.forge'']" and name="''stale''"
        and err="?serr", THEN conjunct2, THEN conjunct2, THEN conjunct2, THEN conjunct2, THEN conjunct2, THEN conjunct1] w4 by simp
  have L7: "local_resolve corrupt_os (local_resolver corrupt_agents) ''broken'' None = Inl ?berr"
    by code_simp
  have L8: "local_resolve corrupt_os (local_resolver corrupt_agents) ''stale'' None = Inr None"
    by code_simp
  have G8: "global_resolve corrupt_os (global_resolver corrupt_agents) ''stale'' None =
              Inl ?serr" by code_simp
  have TL7: "local_resolve corrupt_os (tool_local_resolver corrupt_tools) ''broken'' None =
               Inl ?berr" by code_simp
  have TL8: "local_resolve corrupt_os (tool_local_resolver corrupt_tools) ''stale'' None =
               Inr None" by code_simp
  have TG8: "global_resolve corrupt_os (tool_global_resolver corrupt_tools) ''stale'' None =
               Inl ?serr" by code_simp
  have w7: "agent_resolve corrupt_os client_404 corrupt_agents ''broken'' None =
              ([Local], Inl ?berr)"
    using t[where name="''broken''" and err="?berr", THEN conjunct2, THEN conjunct2, THEN conjunct2, THEN conjunct2, THEN conjunct2, THEN conjunct2, THEN conjunct1] L7 by simp
  have w8: "agent_resolve corrupt_os client_404 corrupt_agents ''stale'' None =
              ([Local, Global], Inl ?serr)"
    using t[where name="''stale''" and err="?serr", THEN conjunct2, THEN conjunct2, THEN conjunct2, THEN conjunct2, THEN conjunct2, THEN conjunct2, THEN conjunct2, THEN conjunct1] L8 G8 by simp
  have w9: "tool_resolve corrupt_os client_404 corrupt_tools ''broken'' None =
              ([Local], Inl ?berr)"
    using t[where name="''broken''" and err="?berr", THEN conjunct2, THEN conjunct2, THEN conjunct2, THEN conjunct2, THEN conjunct2, THEN conjunct2, THEN conjunct2, THEN conjunct2, THEN conjunct1] TL7 by simp
  have w10: "tool_resolve corrupt_os client_404 corrupt_tools ''stale'' None =
              ([Local, Global], Inl ?serr)"
    using t[where name="''stale''" and err="?serr", THEN conjunct2, THEN conjunct2, THEN conjunct2, THEN conjunct2, THEN conjunct2, THEN conjunct2, THEN conjunct2, THEN conjunct2, THEN conjunct2] TL8 TG8 by simp
  show ?thesis using load w1 w2 w3 w4 w5 w6 w7 w8 w9 w10 by (intro conjI)
qed

section \<open>The not-found error\<close>

text \<open>
  C5, as amended: whenever the local and the global resolver return absent and the remote
  tier is not configured, returns absent or raises, the error raised carries the name and
  the version as they were passed and the fixed list \<^verbatim>\<open>["local", "global", "remote"]\<close>,
  whether or not the remote resolver was called.
\<close>

theorem not_found_details:
  assumes "L = local_resolve e (local_resolver self) name version"
    and "G = global_resolve e (global_resolver self) name version"
    and "R = remote_resolve client (remote_resolver self) name version"
    and "configured = truthy_str (remote_registry_url (config self))"
    and "TL = local_resolve e (tool_local_resolver tself) name version"
    and "TG = global_resolve e (tool_global_resolver tself) name version"
    and "TR = remote_resolve client (tool_remote_resolver tself) name version"
    and "tconfigured = truthy_str (tool_remote_registry_url (tool_config tself))"
  shows "(L = Inr None \<and> G = Inr None \<and> (\<not> configured \<or> (\<forall>r. R \<noteq> Inr (Some r))) \<longrightarrow>
            snd (agent_resolve e client self name version) =
              Inl (AgentNotFoundError name version [''local'', ''global'', ''remote'']))
       \<and> (TL = Inr None \<and> TG = Inr None \<and> (\<not> tconfigured \<or> (\<forall>r. TR \<noteq> Inr (Some r))) \<longrightarrow>
            snd (tool_resolve e client tself name version) =
              Inl (ToolNotFoundError name version [''local'', ''global'', ''remote'']))"
  unfolding assms
  by (intro conjI impI; (elim conjE)?;
      auto simp add: agent_resolve_def tool_resolve_def split: sum.splits option.splits)

theorem not_found_details_witness:
  "snd (agent_resolve demo_os client_down (demo_agents (Some ''https://r.example''))
          ''demo'' (Some ''7.0.0'')) =
     Inl (AgentNotFoundError ''demo'' (Some ''7.0.0'') [''local'', ''global'', ''remote'']) \<and>
   snd (agent_resolve demo_os client_404 (demo_agents None) ''far'' None) =
     Inl (AgentNotFoundError ''far'' None [''local'', ''global'', ''remote'']) \<and>
   snd (tool_resolve demo_os client_down (demo_tools (Some ''https://r.example''))
          ''demo'' (Some ''7.0.0'')) =
     Inl (ToolNotFoundError ''demo'' (Some ''7.0.0'') [''local'', ''global'', ''remote'']) \<and>
   snd (tool_resolve demo_os client_404 (demo_tools None) ''far'' None) =
     Inl (ToolNotFoundError ''far'' None [''local'', ''global'', ''remote''])"
proof -
  let ?u = "Some ''https://r.example''"
  let ?v = "Some ''7.0.0''"
  have L1: "local_resolve demo_os (local_resolver (demo_agents ?u)) ''demo'' ?v = Inr None"
    by code_simp
  have G1: "global_resolve demo_os (global_resolver (demo_agents ?u)) ''demo'' ?v = Inr None"
    by code_simp
  have R1: "remote_resolve client_down (remote_resolver (demo_agents ?u)) ''demo'' ?v =
              Inl (NetworkError None (Some ''https://r.example''))"
    by code_simp
  have L2: "local_resolve demo_os (local_resolver (demo_agents None)) ''far'' None = Inr None"
    by code_simp
  have G2: "global_resolve demo_os (global_resolver (demo_agents None)) ''far'' None = Inr None"
    by code_simp
  have c2: "\<not> truthy_str (remote_registry_url (config (demo_agents None)))" by code_simp
  have TL1: "local_resolve demo_os (tool_local_resolver (demo_tools ?u)) ''demo'' ?v = Inr None"
    by code_simp
  have TG1: "global_resolve demo_os (tool_global_resolver (demo_tools ?u)) ''demo'' ?v = Inr None"
    by code_simp
  have TR1: "remote_resolve client_down (tool_remote_resolver (demo_tools ?u)) ''demo'' ?v =
               Inl (NetworkError None (Some ''https://r.example''))"
    by code_simp
  have TL2: "local_resolve demo_os (tool_local_resolver (demo_tools None)) ''far'' None = Inr None"
    by code_simp
  have TG2: "global_resolve demo_os (tool_global_resolver (demo_tools None)) ''far'' None =
               Inr None"
    by code_simp
  have tc2: "\<not> truthy_str (tool_remote_registry_url (tool_config (demo_tools None)))"
    by code_simp
  note t1 = not_found_details[where e=demo_os and client=client_down
      and self="demo_agents ?u" and tself="demo_tools ?u" and name="''demo''" and version="?v",
      OF refl refl refl refl refl refl refl refl]
  note t2 = not_found_details[where e=demo_os and client=client_404
      and self="demo_agents None" and tself="demo_tools None" and name="''far''"
      and version=None, OF refl refl refl refl refl refl refl refl]
  have w1: "snd (agent_resolve demo_os client_down (demo_agents ?u) ''demo'' ?v) =
     Inl (AgentNotFoundError ''demo'' ?v [''local'', ''global'', ''remote''])"
    using t1[THEN conjunct1] L1 G1 R1 by simp
  have w2: "snd (agent_resolve demo_os client_404 (demo_agents None) ''far'' None) =
     Inl (AgentNotFoundError ''far'' None [''local'', ''global'', ''remote''])"
    using t2[THEN conjunct1] L2 G2 c2 by simp
  have w3: "snd (tool_resolve demo_os client_down (demo_tools ?u) ''demo'' ?v) =
     Inl (ToolNotFoundError ''demo'' ?v [''local'', ''global'', ''remote''])"
    using t1[THEN conjunct2] TL1 TG1 TR1 by simp
  have w4: "snd (tool_resolve demo_os client_404 (demo_tools None) ''far'' None) =
     Inl (ToolNotFoundError ''far'' None [''local'', ''global'', ''remote''])"
    using t2[THEN conjunct2] TL2 TG2 tc2 by simp
  show ?thesis using w1 w2 w3 w4 by (intro conjI)
qed

text \<open>
  The list attached to the error is not the list of the tiers searched: without a remote
  URL only the local and the global resolver are called, and the error still names
  \<^verbatim>\<open>remote\<close>.
\<close>

theorem not_found_searched_counterexample:
  "fst (agent_resolve demo_os client_404 (demo_agents None) ''far'' None) = [Local, Global] \<and>
   snd (agent_resolve demo_os client_404 (demo_agents None) ''far'' None) =
     Inl (AgentNotFoundError ''far'' None [''local'', ''global'', ''remote'']) \<and>
   [''local'', ''global'', ''remote''] \<noteq> map tier_name [Local, Global]"
  by code_simp

section \<open>Remote failures\<close>

text \<open>
  C6: a match in the local or in the global tier is returned whatever the remote service
  does (the remote resolver is not called), and when the local and the global tier have
  nothing and the remote resolver raises any error, the outcome is the not-found error for
  the requested name.
\<close>

theorem remote_errors_swallowed:
  assumes "L = local_resolve e (local_resolver self) name version"
    and "G = global_resolve e (global_resolver self) name version"
    and "R = remote_resolve client (remote_resolver self) name version"
    and "configured = truthy_str (remote_registry_url (config self))"
    and "TL = local_resolve e (tool_local_resolver tself) name version"
    and "TG = global_resolve e (tool_global_resolver tself) name version"
    and "TR = remote_resolve client (tool_remote_resolver tself) name version"
    and "tconfigured = truthy_str (tool_remote_registry_url (tool_config tself))"
  shows "(L = Inr (Some r) \<longrightarrow>
            (\<forall>client'. agent_resolve e client' self name version = ([Local], Inr r)))
       \<and> (L = Inr None \<and> G = Inr (Some r) \<longrightarrow>
            (\<forall>client'. agent_resolve e client' self name version = ([Local, Global], Inr r)))
       \<and> (L = Inr None \<and> G = Inr None \<and> configured \<and> R = Inl exn \<longrightarrow>
            (\<exists>v s. agent_resolve e client self name version =
                     ([Local, Global, Remote], Inl (AgentNotFoundError name v s))))
       \<and> (TL = Inr (Some r) \<longrightarrow>
            (\<forall>client'. tool_resolve e client' tself name version = ([Local], Inr r)))
       \<and> (TL = Inr None \<and> TG = Inr (Some r) \<longrightarrow>
            (\<forall>client'. tool_resolve e client' tself name version = ([Local, Global], Inr r)))
       \<and> (TL = Inr None \<and> TG = Inr None \<and> tconfigured \<and> TR = Inl exn \<longrightarrow>
            (\<exists>v s. tool_resolve e client tself name version =
                     ([Local, Global, Remote], Inl (ToolNotFoundError name v s))))"
  unfolding assms
  by (intro conjI impI allI; (elim conjE)?;
      simp add: agent_resolve_def tool_resolve_def split: sum.splits option.splits)

theorem remote_errors_swallowed_witness:
  "remote_resolve client_down (remote_resolver (demo_agents (Some ''https://r.example'')))
       ''far'' None = Inl (NetworkError None (Some ''https://r.example'')) \<and>
   agent_resolve demo_os client_down (demo_agents (Some ''https://r.example'')) ''demo'' None =
     ([Local], Inr (demo_result ''demo'' ''2.0.0'' ''.forge/agents/demo/2.0.0'' ''local'')) \<and>
   agent_resolve demo_os client_down (demo_agents (Some ''https://r.example'')) ''shared'' None =
     ([Local, Global],
      Inr (demo_result ''shared'' ''1.0.0'' ''home/user/.forge/agents/shared/1.0.0'' ''global'')) \<and>
   (\<exists>v s. agent_resolve demo_os client_down (demo_agents (Some ''https://r.example''))
             ''far'' None =
           ([Local, Global, Remote], Inl (AgentNotFoundError ''far'' v s))) \<and>
   tool_resolve demo_os client_down (demo_tools (Some ''https://r.example'')) ''demo'' None =
     ([Local], Inr (demo_result ''demo'' ''2.0.0'' ''.forge/agents/demo/2.0.0'' ''local'')) \<and>
   tool_resolve demo_os client_down (demo_tools (Some ''https://r.example'')) ''shared'' None =
     ([Local, Global],
      Inr (demo_result ''shared'' ''1.0.0'' ''home/user/.forge/agents/shared/1.0.0'' ''global'')) \<and>
   (\<exists>v s. tool_resolve demo_os client_down (demo_tools (Some ''https://r.example''))
             ''far'' None =
           ([Local, Global, Remote], Inl (ToolNotFoundError ''far'' v s)))"
proof -
  let ?u = "Some ''https://r.example''"
  let ?demo = "demo_result ''demo'' ''2.0.0'' ''.forge/agents/demo/2.0.0'' ''local''"
  let ?shared = "demo_result ''shared'' ''1.0.0'' ''home/user/.forge/agents/shared/1.0.0'' ''global''"
  let ?net = "NetworkError None (Some ''https://r.example'')"
  have cU: "truthy_str (remote_registry_url (config (demo_agents ?u)))" by code_simp
  have tcU: "truthy_str (tool_remote_registry_url (tool_config (demo_tools ?u)))" by code_simp
  have L1: "local_resolve demo_os (local_resolver (demo_agents ?u)) ''demo'' None =
              Inr (Some ?demo)" by code_simp
  have L2: "local_resolve demo_os (local_resolver (demo_agents ?u)) ''shared'' None = Inr None"
    by code_simp
  have G2: "global_resolve demo_os (global_resolver (demo_agents ?u)) ''shared'' None =
              Inr (Some ?shared)" by code_simp
  have L3: "local_resolve demo_os (local_resolver (demo_agents ?u)) ''far'' None = Inr None"
    by code_simp
  have G3: "global_resolve demo_os (global_resolver (demo_agents ?u)) ''far'' None = Inr None"
    by code_simp
  have R3: "remote_resolve client_down (remote_resolver (demo_agents ?u)) ''far'' None =
              Inl ?net" by code_simp
  have TL1: "local_resolve demo_os (tool_local_resolver (demo_tools ?u)) ''demo'' None =
              Inr (Some ?demo)" by code_simp
  have TL2: "local_resolve demo_os (tool_local_resolver (demo_tools ?u)) ''shared'' None =
              Inr None" by code_simp
  have TG2: "global_resolve demo_os (tool_global_resolver (demo_tools ?u)) ''shared'' None =
              Inr (Some ?shared)" by code_simp
  have TL3: "local_resolve demo_os (tool_local_resolver (demo_tools ?u)) ''far'' None = Inr None"
    by code_simp
  have TG3: "global_resolve demo_os (tool_global_resolver (demo_tools ?u)) ''far'' None = Inr None"
    by code_simp
  have TR3: "remote_resolve client_down (tool_remote_resolver (demo_tools ?u)) ''far'' None =
               Inl ?net" by code_simp
  note t1 = remote_errors_swallowed[where e=demo_os and client=client_down
      and self="demo_agents ?u" and tself="demo_tools ?u" and name="''demo''" and version=None
      and r="?demo", OF refl refl refl refl refl refl refl refl]
  note t2 = remote_errors_swallowed[where e=demo_os and client=client_down
      and self="demo_agents ?u" and tself="demo_tools ?u" and name="''shared''" and version=None
      and r="?shared", OF refl refl refl refl refl refl refl refl]
  note t3 = remote_errors_swallowed[where e=demo_os and client=client_down
      and self="demo_agents ?u" and tself="demo_tools ?u" and name="''far''" and version=None
      and exn="?net", OF refl refl refl refl refl refl refl refl]
  have a1: "agent_resolve demo_os client_down (demo_agents ?u) ''demo'' None =
              ([Local], Inr ?demo)"
    using t1[THEN conjunct1] L1 by simp
  have a2: "agent_resolve demo_os client_down (demo_agents ?u) ''shared'' None =
              ([Local, Global], Inr ?shared)"
    using t2[THEN conjunct2, THEN conjunct1] L2 G2 by simp
  have a3: "\<exists>v s. agent_resolve demo_os client_down (demo_agents ?u) ''far'' None =
              ([Local, Global, Remote], Inl (AgentNotFoundError ''far'' v s))"
    using t3[THEN conjunct2, THEN conjunct2, THEN conjunct1] L3 G3 cU R3 by simp
  have b1: "tool_resolve demo_os client_down (demo_tools ?u) ''demo'' None =
              ([Local], Inr ?demo)"
    using t1[THEN conjunct2, THEN conjunct2, THEN conjunct2, THEN conjunct1] TL1 by simp
  have b2: "tool_resolve demo_os client_down (demo_tools ?u) ''shared'' None =
              ([Local, Global], Inr ?shared)"
    using t2[THEN conjunct2, THEN conjunct2, THEN conjunct2, THEN conjunct2, THEN conjunct1]
      TL2 TG2 by simp
  have b3: "\<exists>v s. tool_resolve demo_os client_down (demo_tools ?u) ''far'' None =
              ([Local, Global, Remote], Inl (ToolNotFoundError ''far'' v s))"
    using t3[THEN conjunct2, THEN conjunct2, THEN conjunct2, THEN conjunct2, THEN conjunct2]
      TL3 TG3 tcU TR3 by simp
  show ?thesis using R3 a1 a2 a3 b1 b2 b3 by (intro conjI)
qed

section \<open>Existence check\<close>

text \<open>
  C8: \<open>agent_exists\<close> and \<open>tool_exists\<close> return true exactly when the resolve succeeds,
  return false when it fails with the registry's not-found error, and fail with the same
  error when it fails with any other error.
\<close>

theorem exists_converts_only_not_found:
  assumes "A = snd (agent_resolve e client self name version)"
    and "T = snd (tool_resolve e client tself name version)"
  shows "(agent_exists e client self name version = Inr True \<longleftrightarrow> (\<exists>r. A = Inr r))
       \<and> (A = Inl (AgentNotFoundError n v s) \<longrightarrow>
            agent_exists e client self name version = Inr False)
       \<and> (A = Inl err \<and> (\<forall>n' v' s'. err \<noteq> AgentNotFoundError n' v' s') \<longrightarrow>
            agent_exists e client self name version = Inl err)
       \<and> (tool_exists e client tself name version = Inr True \<longleftrightarrow> (\<exists>r. T = Inr r))
       \<and> (T = Inl (ToolNotFoundError n v s) \<longrightarrow>
            tool_exists e client tself name version = Inr False)
       \<and> (T = Inl err \<and> (\<forall>n' v' s'. err \<noteq> ToolNotFoundError n' v' s') \<longrightarrow>
            tool_exists e client tself name version = Inl err)"
  unfolding assms
  by (intro conjI impI; (elim conjE)?;
      auto simp add: agent_exists_def tool_exists_def split: sum.splits error.splits)

theorem exists_converts_only_not_found_witness:
  "agent_exists demo_os client_404 (demo_agents None) ''demo'' None = Inr True \<and>
   agent_exists demo_os client_404 (demo_agents None) ''far'' None = Inr False \<and>
   agent_exists corrupt_os client_404 corrupt_agents ''broken'' None =
     Inl (ResolutionError ''broken'' ''.forge/tools/broken/1.0.0/definition.yaml'') \<and>
   tool_exists demo_os client_404 (demo_tools None) ''demo'' None = Inr True \<and>
   tool_exists demo_os client_404 (demo_tools None) ''far'' None = Inr False \<and>
   tool_exists corrupt_os client_404 corrupt_tools ''broken'' None =
     Inl (ResolutionError ''broken'' ''.forge/tools/broken/1.0.0/definition.yaml'')"
proof -
  let ?demo = "demo_result ''demo'' ''2.0.0'' ''.forge/agents/demo/2.0.0'' ''local''"
  let ?berr = "ResolutionError ''broken'' ''.forge/tools/broken/1.0.0/definition.yaml''"
  let ?s = "[''local'', ''global'', ''remote'']"
  have A1: "snd (agent_resolve demo_os client_404 (demo_agents None) ''demo'' None) = Inr ?demo"
    by code_simp
  have A2: "snd (agent_resolve demo_os client_404 (demo_agents None) ''far'' None) =
              Inl (AgentNotFoundError ''far'' None ?s)" by code_simp
  have A3: "snd (agent_resolve corrupt_os client_404 corrupt_agents ''broken'' None) = Inl ?berr"
    by code_simp
  have T1: "snd (tool_resolve demo_os client_404 (demo_tools None) ''demo'' None) = Inr ?demo"
    by code_simp
  have T2: "snd (tool_resolve demo_os client_404 (demo_tools None) ''far'' None) =
              Inl (ToolNotFoundError ''far'' None ?s)" by code_simp
  have T3: "snd (tool_resolve corrupt_os client_404 corrupt_tools ''broken'' None) = Inl ?berr"
    by code_simp
  note t1 = exists_converts_only_not_found[where e=demo_os and client=client_404
      and self="demo_agents None" and tself="demo_tools None" and name="''demo''"
      and version=None, OF refl refl]
  note t2 = exists_converts_only_not_found[where e=demo_os and client=client_404
      and self="demo_agents None" and tself="demo_tools None" and name="''far''"
      and version=None and n="''far''" and v=None and s="?s", OF refl refl]
  note t3 = exists_converts_only_not_found[where e=corrupt_os and client=client_404
      and self=corrupt_agents and tself=corrupt_tools and name="''broken''"
      and version=None and err="?berr", OF refl refl]
  have a1: "agent_exists demo_os client_404 (demo_agents None) ''demo'' None = Inr True"
    using t1[THEN conjunct1] A1 by simp
  have a2: "agent_exists demo_os client_404 (demo_agents None) ''far'' None = Inr False"
    using t2[THEN conjunct2, THEN conjunct1] A2 by simp
  have a3: "agent_exists corrupt_os client_404 corrupt_agents ''broken'' None = Inl ?berr"
    using t3[THEN conjunct2, THEN conjunct2, THEN conjunct1] A3 by simp
  have b1: "tool_exists demo_os client_404 (demo_tools None) ''demo'' None = Inr True"
    using t1[THEN conjunct2, THEN conjunct2, THEN conjunct2, THEN conjunct1] T1 by simp
  have b2: "tool_exists demo_os client_404 (demo_tools None) ''far'' None = Inr False"
    using t2[THEN conjunct2, THEN conjunct2, THEN conjunct2, THEN conjunct2, THEN conjunct1]
      T2 by simp
  have b3: "tool_exists corrupt_os client_404 corrupt_tools ''broken'' None = Inl ?berr"
    using t3[THEN conjunct2, THEN conjunct2, THEN conjunct2, THEN conjunct2, THEN conjunct2]
      T3 by simp
  show ?thesis using a1 a2 a3 b1 b2 b3 by (intro conjI)
qed

section \<open>Source tags\<close>

text \<open>
  C3: the results the global resolver lists do not carry the source \<^verbatim>\<open>global\<close>. On the
  user registry holding the agent \<^verbatim>\<open>shared\<close>, \<open>global_list_all\<close>, and \<open>agent_list\<close>
  filtered to \<^verbatim>\<open>global\<close>, give the record tagged \<^verbatim>\<open>local\<close>, while \<open>global_resolve\<close>
  gives the same record tagged \<^verbatim>\<open>global\<close>.
\<close>

theorem global_list_all_source_local:
  "global_list_all demo_os (global_resolver (demo_agents None)) =
     Inr [demo_result ''shared'' ''1.0.0'' ''home/user/.forge/agents/shared/1.0.0'' ''local''] \<and>
   agent_list demo_os client_404 (demo_agents None) (Some ''global'') =
     Inr [demo_result ''shared'' ''1.0.0'' ''home/user/.forge/agents/shared/1.0.0'' ''local''] \<and>
   global_resolve demo_os (global_resolver (demo_agents None)) ''shared'' None =
     Inr (Some (demo_result ''shared'' ''1.0.0'' ''home/user/.forge/agents/shared/1.0.0''
                  ''global''))"
  by code_simp

section \<open>Remote decoding\<close>

text \<open>
  C7: a response with status 200 whose body has no \<^verbatim>\<open>version\<close> field makes
  \<open>remote_resolve\<close> fail with \<^verbatim>\<open>KeyError\<close>, and a body that is not JSON with the JSON
  decoding error; neither is a \<open>NetworkError\<close> or a \<open>ResolutionError\<close>.
\<close>

theorem remote_resolve_missing_field_escapes:
  "remote_resolve (client_200 remote_doc_no_version) ''https://registry.fractary.com''
     ''far'' None = Inl (OtherError ''KeyError'') \<and>
   remote_resolve (\<lambda>endpoint params. Response 200 None) ''https://registry.fractary.com''
     ''far'' None = Inl (OtherError ''JSONDecodeError'')"
  by code_simp

end
